theory Spec2Isabelle
  imports Complex_Main "HOL-Library.Word" "HOL-Library.Sublist"
begin

section \<open>Python values\<close>

text \<open>
  A Python \<open>str\<close> is a sequence of Unicode code points, and \<open>len\<close> counts code points:
  it is a list of naturals here. \<open>lit\<close> embeds the ASCII literals of the source.
  \<open>bytes\<close> is a list of 8-bit words.
\<close>

type_synonym pystr = "nat list"
type_synonym pybytes = "8 word list"

definition lit :: "string \<Rightarrow> pystr" where
  "lit s = map of_char s"

definition nl :: pystr where
  "nl = [10]"

text \<open>\<open>str(n)\<close> for a non-negative integer, as f-strings render it.\<close>

function str_nat :: "nat \<Rightarrow> pystr" where
  "str_nat n = (if n < 10 then [48 + n] else str_nat (n div 10) @ [48 + n mod 10])"
  by pat_completeness auto
termination
  by (relation "measure id") auto

declare str_nat.simps [simp del]

text \<open>
  \<open>str.isspace\<close> on one code point (the characters of bidirectional type WS, B or S and of
  category Zs), and \<open>str.strip()\<close> with no argument.
\<close>

definition isspace :: "nat \<Rightarrow> bool" where
  "isspace c \<longleftrightarrow>
     (9 \<le> c \<and> c \<le> 13) \<or> (28 \<le> c \<and> c \<le> 32) \<or> c = 133 \<or> c = 160 \<or> c = 5760
     \<or> (8192 \<le> c \<and> c \<le> 8202) \<or> c = 8232 \<or> c = 8233 \<or> c = 8239 \<or> c = 8287 \<or> c = 12288"

definition strip :: "pystr \<Rightarrow> pystr" where
  "strip s = rev (dropWhile isspace (rev (dropWhile isspace s)))"

text \<open>
  \<open>s.split(sep)\<close> for a non-empty separator: the occurrences of \<open>sep\<close> are found from the
  left and do not overlap. \<open>k\<close> counts the characters of a matched separator still to skip,
  \<open>acc\<close> is the current piece, reversed.
\<close>

fun split_from :: "pystr \<Rightarrow> nat \<Rightarrow> pystr \<Rightarrow> pystr \<Rightarrow> pystr list" where
  "split_from sep k acc [] = [rev acc]"
| "split_from sep k acc (c # cs) =
     (if 0 < k then split_from sep (k - 1) acc cs
      else if prefix sep (c # cs) then rev acc # split_from sep (length sep - 1) [] cs
      else split_from sep 0 (c # acc) cs)"

definition split :: "pystr \<Rightarrow> pystr \<Rightarrow> pystr list" where
  "split s sep = split_from sep 0 [] s"

text \<open>
  Exceptions are values: a class and the message \<open>str(e)\<close>. Only subclasses of
  \<open>Exception\<close> are modelled. The three predicates are \<open>isinstance\<close> against the classes
  that the handlers of the source name.
\<close>

datatype exn_class =
    UnicodeDecodeError | JSONDecodeError | ValueError | TypeError | AttributeError
  | KeyError | FileNotFoundError | PermissionError | OSError | ConnectionError | RuntimeError
  | CalledProcessError
  | Requests_ConnectionError | Requests_HTTPError | Requests_Timeout
  | Requests_JSONDecodeError

datatype exn = Exn (cls: exn_class) (msg: pystr)

type_synonym 'a io = "exn + 'a"

definition is_requests_ConnectionError :: "exn \<Rightarrow> bool" where
  "is_requests_ConnectionError e \<longleftrightarrow> cls e = Requests_ConnectionError"

definition is_RequestException :: "exn \<Rightarrow> bool" where
  "is_RequestException e \<longleftrightarrow>
     cls e \<in> {Requests_ConnectionError, Requests_HTTPError, Requests_Timeout,
              Requests_JSONDecodeError}"

definition is_ValueError :: "exn \<Rightarrow> bool" where
  "is_ValueError e \<longleftrightarrow>
     cls e \<in> {ValueError, UnicodeDecodeError, JSONDecodeError, Requests_JSONDecodeError}"

definition is_UnicodeDecodeError :: "exn \<Rightarrow> bool" where
  "is_UnicodeDecodeError e \<longleftrightarrow> cls e = UnicodeDecodeError"

definition is_CalledProcessError :: "exn \<Rightarrow> bool" where
  "is_CalledProcessError e \<longleftrightarrow> cls e = CalledProcessError"

text \<open>What \<open>response.json()\<close> returns: the Python value of a JSON document.\<close>

datatype json =
    JNull | JBool bool | JInt int | JFloat real | JStr pystr
  | JArr "json list" | JObj "(pystr \<times> json) list"

text \<open>
  \<open>key in value\<close> and \<open>value[key]\<close> for a string key on such a value: a dict looks the key
  up, a list compares its elements, a string searches a substring, and the other values
  raise \<open>TypeError\<close>; only a dict can be indexed by a string.
\<close>

definition contains :: "pystr \<Rightarrow> json \<Rightarrow> bool io" where
  "contains k v =
     (case v of
        JObj kvs \<Rightarrow> Inr (map_of kvs k \<noteq> None)
      | JArr xs \<Rightarrow> Inr (JStr k \<in> set xs)
      | JStr s \<Rightarrow> Inr (sublist k s)
      | _ \<Rightarrow> Inl (Exn TypeError (lit ''argument is not iterable'')))"

definition subscript :: "json \<Rightarrow> pystr \<Rightarrow> json io" where
  "subscript v k =
     (case v of
        JObj kvs \<Rightarrow> (case map_of kvs k of
                      Some x \<Rightarrow> Inr x
                    | None \<Rightarrow> Inl (Exn KeyError k))
      | _ \<Rightarrow> Inl (Exn TypeError (lit ''indices must be integers'')))"

definition get_default :: "json \<Rightarrow> pystr \<Rightarrow> json \<Rightarrow> json io" where
  "get_default v k d =
     (case v of
        JObj kvs \<Rightarrow> (case map_of kvs k of Some x \<Rightarrow> Inr x | None \<Rightarrow> Inr d)
      | _ \<Rightarrow> Inl (Exn AttributeError (lit ''object has no attribute get'')))"

section \<open>The generation client (ollama_adapter.py)\<close>

record adapter =
  base_url :: pystr
  model :: pystr

record request =
  url :: pystr
  req_model :: pystr
  req_prompt :: pystr
  num_predict :: int
  temperature :: real
  stream :: bool

text \<open>
  The reply to one \<open>session.post\<close>: the call raises, or it returns a response with a
  status code, a reason phrase, and the outcome of \<open>response.json()\<close> (the parsed body, or
  the exception the parser raises).
\<close>

record response =
  status_code :: nat
  reason :: pystr
  resp_url :: pystr
  json_body :: "json io"

datatype reply = PostRaises exn | Response response

text \<open>The backend answers the \<open>k\<close>-th request of a call (from 0).\<close>

type_synonym backend = "request \<Rightarrow> nat \<Rightarrow> reply"

record generation =
  g_text :: json
  g_model :: pystr
  prompt_tokens :: json
  completion_tokens :: json
  g_done :: json

datatype event = Post nat | Sleep nat

text \<open>
  \<open>Response.raise_for_status\<close> of the requests library: an \<open>HTTPError\<close> for the status
  codes 400 to 599, and nothing for any other code.
\<close>

definition raise_for_status :: "response \<Rightarrow> unit io" where
  "raise_for_status r =
     (if 400 \<le> status_code r \<and> status_code r < 500 then
        Inl (Exn Requests_HTTPError
          (str_nat (status_code r) @ lit '' Client Error: '' @ reason r @ lit '' for url: ''
           @ resp_url r))
      else if 500 \<le> status_code r \<and> status_code r < 600 then
        Inl (Exn Requests_HTTPError
          (str_nat (status_code r) @ lit '' Server Error: '' @ reason r @ lit '' for url: ''
           @ resp_url r))
      else Inr ())"

definition exponential_backoff :: "nat \<Rightarrow> nat" where
  "exponential_backoff attempt = min (2 ^ attempt) 30"

text \<open>
  The body of the \<open>try\<close> in \<open>generate\<close> after the request is sent. \<open>repr\<close> renders a value
  in an f-string.
\<close>

definition attempt_body :: "(json \<Rightarrow> pystr) \<Rightarrow> pystr \<Rightarrow> reply \<Rightarrow> generation io" where
  "attempt_body repr model_name rp =
     (case rp of
        PostRaises e \<Rightarrow> Inl e
      | Response r \<Rightarrow>
          (case raise_for_status r of
             Inl e \<Rightarrow> Inl e
           | Inr _ \<Rightarrow>
               (case json_body r of
                  Inl e \<Rightarrow> Inl e
                | Inr result \<Rightarrow>
                    (case contains (lit ''response'') result of
                       Inl e \<Rightarrow> Inl e
                     | Inr False \<Rightarrow>
                         Inl (Exn ValueError (lit ''Invalid response format: '' @ repr result))
                     | Inr True \<Rightarrow>
                         (case subscript result (lit ''response'') of
                            Inl e \<Rightarrow> Inl e
                          | Inr t \<Rightarrow>
                              (case get_default result (lit ''prompt_eval_count'') (JInt 0) of
                                 Inl e \<Rightarrow> Inl e
                               | Inr pt \<Rightarrow>
                                   (case get_default result (lit ''eval_count'') (JInt 0) of
                                      Inl e \<Rightarrow> Inl e
                                    | Inr ct \<Rightarrow>
                                        (case get_default result (lit ''done'') (JBool True) of
                                           Inl e \<Rightarrow> Inl e
                                         | Inr d \<Rightarrow>
                                             Inr \<lparr>g_text = t, g_model = model_name,
                                                  prompt_tokens = pt, completion_tokens = ct,
                                                  g_done = d\<rparr>))))))))"

text \<open>
  The loop \<open>for attempt in range(3)\<close> with its three handlers, in the order of the source.
  The result is what the call raises or returns (\<open>None\<close> when the loop ends without a
  return), with the requests sent and the sleeps made, in order.
\<close>

fun retry_loop ::
  "adapter \<Rightarrow> (json \<Rightarrow> pystr) \<Rightarrow> pystr \<Rightarrow> (nat \<Rightarrow> reply) \<Rightarrow> nat list
    \<Rightarrow> generation option io \<times> event list" where
  "retry_loop self repr model_name post [] = (Inr None, [])"
| "retry_loop self repr model_name post (attempt # rest) =
     (case attempt_body repr model_name (post attempt) of
        Inr r \<Rightarrow> (Inr (Some r), [Post attempt])
      | Inl e \<Rightarrow>
          if is_requests_ConnectionError e then
            (if attempt = 2 then
               (Inl (Exn ConnectionError
                  (lit ''Could not connect to Ollama at '' @ base_url self
                   @ lit ''. Please ensure Ollama is running and accessible.'')),
                [Post attempt])
             else
               (let delay = exponential_backoff attempt;
                    (res, evs) = retry_loop self repr model_name post rest
                in (res, Post attempt # Sleep delay # evs)))
          else if is_RequestException e then
            (if attempt = 2 then
               (Inl (Exn ConnectionError (lit ''Request to Ollama failed: '' @ msg e)),
                [Post attempt])
             else
               (let delay = exponential_backoff attempt;
                    (res, evs) = retry_loop self repr model_name post rest
                in (res, Post attempt # Sleep delay # evs)))
          else if is_ValueError e then
            (if attempt = 2 then
               (Inl (Exn ValueError (lit ''Invalid response from Ollama: '' @ msg e)),
                [Post attempt])
             else
               (let delay = exponential_backoff attempt;
                    (res, evs) = retry_loop self repr model_name post rest
                in (res, Post attempt # Sleep delay # evs)))
          else (Inl e, [Post attempt]))"

text \<open>\<open>model or self.model\<close>: an absent or empty override gives the adapter's model.\<close>

definition model_or :: "pystr option \<Rightarrow> pystr \<Rightarrow> pystr" where
  "model_or m d = (case m of None \<Rightarrow> d | Some s \<Rightarrow> if s = [] then d else s)"

definition payload :: "adapter \<Rightarrow> pystr \<Rightarrow> int \<Rightarrow> real \<Rightarrow> pystr option \<Rightarrow> request" where
  "payload self prompt max_tokens temp model_arg =
     \<lparr>url = base_url self @ lit ''/api/generate'',
      req_model = model_or model_arg (model self), req_prompt = prompt,
      num_predict = max_tokens, temperature = temp, stream = False\<rparr>"

definition generate ::
  "adapter \<Rightarrow> (json \<Rightarrow> pystr) \<Rightarrow> backend \<Rightarrow> pystr \<Rightarrow> int \<Rightarrow> real \<Rightarrow> pystr option
    \<Rightarrow> generation option io \<times> event list" where
  "generate self repr be prompt max_tokens temp model_arg =
     (let model_name = model_or model_arg (model self)
      in retry_loop self repr model_name
           (be (payload self prompt max_tokens temp model_arg)) [0..<3])"

text \<open>
  Reading the events of a call: the number of requests sent, and the sleeps in order. An
  attempt fails, for the loop, when its \<open>try\<close> raises an error that one of the three
  handlers catches.
\<close>

definition attempts :: "event list \<Rightarrow> nat" where
  "attempts evs = length (filter (\<lambda>e. case e of Post _ \<Rightarrow> True | Sleep _ \<Rightarrow> False) evs)"

definition sleeps :: "event list \<Rightarrow> nat list" where
  "sleeps evs = concat (map (\<lambda>e. case e of Post _ \<Rightarrow> [] | Sleep d \<Rightarrow> [d]) evs)"

definition handled :: "exn \<Rightarrow> bool" where
  "handled e \<longleftrightarrow> is_requests_ConnectionError e \<or> is_RequestException e \<or> is_ValueError e"

definition attempt_fails :: "(json \<Rightarrow> pystr) \<Rightarrow> pystr \<Rightarrow> reply \<Rightarrow> bool" where
  "attempt_fails repr model_name rp =
     (case attempt_body repr model_name rp of Inl e \<Rightarrow> handled e | Inr _ \<Rightarrow> False)"

section \<open>The curation client (curator_service.py)\<close>

record curation =
  refined :: pystr
  original_length :: nat
  refined_length :: nat
  curator_model :: pystr
  c_success :: bool
  c_error :: "pystr option"
  fallback :: "bool option"

definition curation_prompt :: "pystr \<Rightarrow> pystr \<Rightarrow> pystr" where
  "curation_prompt prompt instruction =
     (if strip instruction \<noteq> [] then
        lit ''You are a prompt curator. Your task is to refine and improve prompts for better clarity and effectiveness.''
        @ nl @ nl @ lit ''INSTRUCTION: '' @ instruction
        @ nl @ nl @ lit ''ORIGINAL PROMPT:''
        @ nl @ prompt
        @ nl @ nl @ lit ''REFINED PROMPT:''
      else
        lit ''You are a prompt curator. Your task is to refine and improve prompts for better clarity, specificity, and effectiveness while maintaining the original intent.''
        @ nl @ nl @ lit ''ORIGINAL PROMPT:''
        @ nl @ prompt
        @ nl @ nl @ lit ''Please provide a refined version that is:''
        @ nl @ lit ''1. More specific and clear''
        @ nl @ lit ''2. Better structured''
        @ nl @ lit ''3. More actionable''
        @ nl @ nl @ lit ''REFINED PROMPT:'')"

text \<open>The \<open>except Exception\<close> branch of \<open>curate_prompt\<close>.\<close>

definition curation_fallback :: "pystr \<Rightarrow> pystr \<Rightarrow> exn \<Rightarrow> curation" where
  "curation_fallback cmodel prompt e =
     \<lparr>refined = prompt, original_length = length prompt, refined_length = length prompt,
      curator_model = cmodel, c_success = False, c_error = Some (msg e),
      fallback = Some True\<rparr>"

text \<open>
  \<open>result["text"].strip()\<close> and the cut at the last \<open>REFINED PROMPT:\<close>. The text of a
  generation is whatever value the backend sent under \<open>response\<close>: \<open>strip\<close> exists on a string
  only, and subscripting \<open>None\<close> raises.
\<close>

definition refine_text :: "generation option \<Rightarrow> pystr io" where
  "refine_text result =
     (case result of
        None \<Rightarrow> Inl (Exn TypeError (lit ''NoneType object is not subscriptable''))
      | Some r \<Rightarrow>
          (case g_text r of
             JStr s \<Rightarrow>
               (let refined_text = strip s
                in if sublist (lit ''REFINED PROMPT:'') refined_text
                   then Inr (strip (last (split refined_text (lit ''REFINED PROMPT:''))))
                   else Inr refined_text)
           | _ \<Rightarrow> Inl (Exn AttributeError (lit ''object has no attribute strip''))))"

text \<open>
  \<open>curator_adapter\<close> and \<open>CURATOR_MODEL\<close> are module globals read from the environment;
  they are parameters here.
\<close>

definition curate_prompt ::
  "adapter \<Rightarrow> pystr \<Rightarrow> (json \<Rightarrow> pystr) \<Rightarrow> backend \<Rightarrow> pystr \<Rightarrow> pystr
    \<Rightarrow> curation io \<times> event list" where
  "curate_prompt curator_adapter cmodel repr be prompt instruction =
     (case generate curator_adapter repr be (curation_prompt prompt instruction) 2048 (3 / 10) None of
        (Inl e, evs) \<Rightarrow> (Inr (curation_fallback cmodel prompt e), evs)
      | (Inr result, evs) \<Rightarrow>
          (case refine_text result of
             Inl e \<Rightarrow> (Inr (curation_fallback cmodel prompt e), evs)
           | Inr refined_text \<Rightarrow>
               (Inr \<lparr>refined = refined_text, original_length = length prompt,
                     refined_length = length refined_text, curator_model = cmodel,
                     c_success = True, c_error = None, fallback = None\<rparr>, evs)))"

section \<open>The ingestion pipeline (ingestion_pipeline.py)\<close>

subsection \<open>Text files: codecs and text mode\<close>

text \<open>
  The strict \<open>utf-8\<close> codec: the well-formed byte sequences of the Unicode standard (no
  overlong forms, no surrogates, nothing above U+10FFFF); \<open>None\<close> is \<open>UnicodeDecodeError\<close>.
\<close>

definition cont :: "8 word \<Rightarrow> bool" where
  "cont b \<longleftrightarrow> 0x80 \<le> b \<and> b \<le> 0xBF"

definition low6 :: "8 word \<Rightarrow> nat" where
  "low6 b = unat b - 128"

fun utf8_decode :: "pybytes \<Rightarrow> pystr option" where
  "utf8_decode [] = Some []"
| "utf8_decode (b0 # bs) =
     (if b0 < 0x80 then map_option ((#) (unat b0)) (utf8_decode bs)
      else if 0xC2 \<le> b0 \<and> b0 \<le> 0xDF then
        (case bs of
           b1 # r \<Rightarrow>
             if cont b1
             then map_option ((#) ((unat b0 - 192) * 64 + low6 b1)) (utf8_decode r)
             else None
         | _ \<Rightarrow> None)
      else if 0xE0 \<le> b0 \<and> b0 \<le> 0xEF then
        (case bs of
           b1 # b2 # r \<Rightarrow>
             if cont b1 \<and> cont b2 \<and> (b0 = 0xE0 \<longrightarrow> 0xA0 \<le> b1) \<and> (b0 = 0xED \<longrightarrow> b1 \<le> 0x9F)
             then map_option ((#) ((unat b0 - 224) * 4096 + low6 b1 * 64 + low6 b2))
                    (utf8_decode r)
             else None
         | _ \<Rightarrow> None)
      else if 0xF0 \<le> b0 \<and> b0 \<le> 0xF4 then
        (case bs of
           b1 # b2 # b3 # r \<Rightarrow>
             if cont b1 \<and> cont b2 \<and> cont b3 \<and> (b0 = 0xF0 \<longrightarrow> 0x90 \<le> b1)
                \<and> (b0 = 0xF4 \<longrightarrow> b1 \<le> 0x8F)
             then map_option
                    ((#) ((unat b0 - 240) * 262144 + low6 b1 * 4096 + low6 b2 * 64 + low6 b3))
                    (utf8_decode r)
             else None
         | _ \<Rightarrow> None)
      else None)"

text \<open>\<open>latin-1\<close> maps every byte to the code point of the same number.\<close>

definition latin1_decode :: "pybytes \<Rightarrow> pystr option" where
  "latin1_decode bs = Some (map unat bs)"

text \<open>
  \<open>cp1252\<close> agrees with latin-1 outside 0x80 to 0x9F; there it has its own table, with
  five bytes undefined.
\<close>

definition cp1252_high :: "nat option list" where
  "cp1252_high =
     [Some 0x20AC, None, Some 0x201A, Some 0x0192, Some 0x201E, Some 0x2026, Some 0x2020,
      Some 0x2021, Some 0x02C6, Some 0x2030, Some 0x0160, Some 0x2039, Some 0x0152, None,
      Some 0x017D, None, None, Some 0x2018, Some 0x2019, Some 0x201C, Some 0x201D,
      Some 0x2022, Some 0x2013, Some 0x2014, Some 0x02DC, Some 0x2122, Some 0x0161,
      Some 0x203A, Some 0x0153, None, Some 0x017E, Some 0x0178]"

definition cp1252_char :: "8 word \<Rightarrow> nat option" where
  "cp1252_char b =
     (if 0x80 \<le> b \<and> b \<le> 0x9F then cp1252_high ! (unat b - 128) else Some (unat b))"

fun cp1252_decode :: "pybytes \<Rightarrow> pystr option" where
  "cp1252_decode [] = Some []"
| "cp1252_decode (b # bs) =
     (case cp1252_char b of
        None \<Rightarrow> None
      | Some c \<Rightarrow> map_option ((#) c) (cp1252_decode bs))"

type_synonym codecs = "pystr \<Rightarrow> pybytes \<Rightarrow> pystr option"

definition python_codecs :: codecs where
  "python_codecs encoding bs =
     (if encoding = lit ''utf-8'' then utf8_decode bs
      else if encoding = lit ''latin-1'' then latin1_decode bs
      else if encoding = lit ''cp1252'' then cp1252_decode bs
      else None)"

text \<open>Reading in text mode translates \<open>\r\n\<close> and \<open>\r\<close> to \<open>\n\<close>.\<close>

fun universal_newlines :: "pystr \<Rightarrow> pystr" where
  "universal_newlines [] = []"
| "universal_newlines [c] = (if c = 13 then [10] else [c])"
| "universal_newlines (c # d # cs) =
     (if c = 13 \<and> d = 10 then 10 # universal_newlines cs
      else if c = 13 then 10 # universal_newlines (d # cs)
      else c # universal_newlines (d # cs))"

subsection \<open>The pipeline and the world around one call\<close>

record pipeline =
  tesseract_available :: bool
  pymupdf_available :: bool

text \<open>
  What one call can observe of its environment. Every operation that can raise is an
  outcome of type \<open>'a io\<close>:
  \<^item> a page of an open PDF: \<open>load_page\<close> and \<open>get_text\<close>; rendering the page into a
    temporary PNG file; running Tesseract on that file (it raises, or it ends with an exit
    status and its standard output); deleting the file;
  \<^item> the file: its suffix, whether it exists and is a regular file, \<open>stat().st_size\<close>, the
    bytes that \<open>open\<close> and \<open>read\<close> get under each encoding, \<open>fitz.open\<close>, Tesseract
    on the file itself, and the time between the start of the call and its return.
\<close>

record pdf_page =
  get_text :: "pystr io"
  save_png :: "unit io"
  page_tesseract :: "(int \<times> pystr) io"
  unlink :: "unit io"

record pdf_doc =
  doc_pages :: "pdf_page list"
  close :: "unit io"

record world =
  suffix :: pystr
  path_exists :: bool
  is_file :: bool
  stat_size :: "nat io"
  open_read :: "pystr \<Rightarrow> pybytes io"
  fitz_open :: "pdf_doc io"
  tesseract :: "(int \<times> pystr) io"
  elapsed :: real

text \<open>The result dictionary: a key is present or absent.\<close>

record extraction =
  success :: "bool option"
  r_text :: "pystr option"
  text_length :: "nat option"
  confidence :: "real option"
  r_method :: "pystr option"
  error :: "pystr option"
  warning :: "pystr option"
  pages :: "nat option"
  processing_time :: "real option"
  file_size :: "nat option"
  content_type :: "pystr option"

definition no_keys :: extraction where
  "no_keys =
     \<lparr>success = None, r_text = None, text_length = None, confidence = None, r_method = None,
      error = None, warning = None, pages = None, processing_time = None, file_size = None,
      content_type = None\<rparr>"

definition failure :: "pystr \<Rightarrow> extraction" where
  "failure e = no_keys\<lparr>success := Some False, error := Some e\<rparr>"

definition extracted :: "pystr \<Rightarrow> real \<Rightarrow> pystr \<Rightarrow> extraction" where
  "extracted t c m =
     no_keys\<lparr>success := Some True, r_text := Some t, text_length := Some (length t),
             confidence := Some c, r_method := Some m\<rparr>"

datatype processor = Process_pdf | Process_image | Process_text

definition supported_types :: "(pystr \<times> processor) list" where
  "supported_types =
     [(lit ''application/pdf'', Process_pdf),
      (lit ''image/jpeg'', Process_image),
      (lit ''image/png'', Process_image),
      (lit ''image/gif'', Process_image),
      (lit ''text/plain'', Process_text)]"

text \<open>
  \<open>str.lower\<close>, exact wherever the result has an ASCII letter: besides A to Z only the
  Kelvin sign and the dotted capital I have a lower case with one.
\<close>

definition lower_char :: "nat \<Rightarrow> pystr" where
  "lower_char c =
     (if 65 \<le> c \<and> c \<le> 90 then [c + 32]
      else if c = 0x212A then [107]
      else if c = 0x130 then [105, 0x307]
      else [c])"

definition lower :: "pystr \<Rightarrow> pystr" where
  "lower s = concat (map lower_char s)"

definition type_map :: "(pystr \<times> pystr) list" where
  "type_map =
     [(lit ''.pdf'', lit ''application/pdf''),
      (lit ''.txt'', lit ''text/plain''),
      (lit ''.md'', lit ''text/plain''),
      (lit ''.jpg'', lit ''image/jpeg''),
      (lit ''.jpeg'', lit ''image/jpeg''),
      (lit ''.png'', lit ''image/png''),
      (lit ''.gif'', lit ''image/gif'')]"

definition detect_content_type :: "world \<Rightarrow> pystr" where
  "detect_content_type w =
     (case map_of type_map (lower (suffix w)) of
        Some t \<Rightarrow> t
      | None \<Rightarrow> lit ''application/octet-stream'')"

subsection \<open>The extractors\<close>

text \<open>\<open>open(file_path, 'r', encoding=...)\<close> and \<open>f.read()\<close>.\<close>

definition read_text :: "codecs \<Rightarrow> world \<Rightarrow> pystr \<Rightarrow> pystr io" where
  "read_text decode w encoding =
     (case open_read w encoding of
        Inl e \<Rightarrow> Inl e
      | Inr bs \<Rightarrow>
          (case decode encoding bs of
             None \<Rightarrow> Inl (Exn UnicodeDecodeError (encoding @ lit '' codec cannot decode''))
           | Some t \<Rightarrow> Inr (universal_newlines t)))"

text \<open>The loop over the other encodings, inside the handler of \<open>UnicodeDecodeError\<close>.\<close>

fun try_encodings :: "codecs \<Rightarrow> world \<Rightarrow> pystr list \<Rightarrow> extraction io" where
  "try_encodings decode w [] =
     Inr (failure (lit ''Unable to decode text file with any supported encoding''))"
| "try_encodings decode w (encoding # rest) =
     (case read_text decode w encoding of
        Inr t \<Rightarrow>
          Inr ((extracted t (9 / 10) (lit ''text_'' @ encoding))
                 \<lparr>warning := Some (lit ''Used '' @ encoding @ lit '' encoding'')\<rparr>)
      | Inl e \<Rightarrow> if is_UnicodeDecodeError e then try_encodings decode w rest else Inl e)"

definition process_text :: "codecs \<Rightarrow> world \<Rightarrow> extraction io" where
  "process_text decode w =
     (case read_text decode w (lit ''utf-8'') of
        Inr t \<Rightarrow> Inr (extracted t 1 (lit ''direct_text''))
      | Inl e \<Rightarrow>
          if is_UnicodeDecodeError e
          then try_encodings decode w [lit ''latin-1'', lit ''cp1252'']
          else Inl e)"

text \<open>
  \<open>subprocess.run(..., check=True)\<close> raises \<open>CalledProcessError\<close> on a non-zero exit status,
  and \<open>_ocr_image\<close> turns that error, and no other, into the empty string.
\<close>

definition run_checked :: "(int \<times> pystr) io \<Rightarrow> pystr io" where
  "run_checked run =
     (case run of
        Inl e \<Rightarrow> Inl e
      | Inr (returncode, stdout) \<Rightarrow>
          if returncode \<noteq> 0
          then Inl (Exn CalledProcessError (lit ''Command returned non-zero exit status''))
          else Inr stdout)"

definition ocr_image :: "(int \<times> pystr) io \<Rightarrow> pystr io" where
  "ocr_image run =
     (case run_checked run of
        Inr stdout \<Rightarrow> Inr (strip stdout)
      | Inl e \<Rightarrow> if is_CalledProcessError e then Inr [] else Inl e)"

definition process_image :: "pipeline \<Rightarrow> world \<Rightarrow> extraction io" where
  "process_image self w =
     (if \<not> tesseract_available self
      then Inr (failure (lit ''OCR requires Tesseract (install tesseract-ocr)''))
      else (case ocr_image (tesseract w) of
              Inr t \<Rightarrow> Inr (extracted t (8 / 10) (lit ''tesseract_ocr''))
            | Inl e \<Rightarrow> Inr (failure (lit ''OCR processing failed: '' @ msg e))))"

text \<open>
  The body of the page loop of \<open>_process_pdf_pymupdf\<close>: what page \<open>page_num\<close> (from 0)
  appends to \<open>text_parts\<close>, if anything. The \<open>finally\<close> deletes the temporary file on both
  paths, and an error of the deletion replaces the one under way.
\<close>

definition page_marker :: "nat \<Rightarrow> pystr" where
  "page_marker page_num = lit ''--- Page '' @ str_nat (page_num + 1) @ lit '' ---''"

definition ocr_marker :: "nat \<Rightarrow> pystr" where
  "ocr_marker page_num = lit ''--- Page '' @ str_nat (page_num + 1) @ lit '' (OCR) ---''"

definition page_part :: "pipeline \<Rightarrow> nat \<Rightarrow> pdf_page \<Rightarrow> pystr option io" where
  "page_part self page_num page =
     (case get_text page of
        Inl e \<Rightarrow> Inl e
      | Inr t \<Rightarrow>
          if strip t \<noteq> [] then Inr (Some (page_marker page_num @ nl @ t))
          else if tesseract_available self then
            (case save_png page of
               Inl e \<Rightarrow> Inl e
             | Inr _ \<Rightarrow>
                 (case ocr_image (page_tesseract page) of
                    Inl e \<Rightarrow> (case unlink page of Inl e' \<Rightarrow> Inl e' | Inr _ \<Rightarrow> Inl e)
                  | Inr ocr_text \<Rightarrow>
                      (case unlink page of
                         Inl e' \<Rightarrow> Inl e'
                       | Inr _ \<Rightarrow>
                           if strip ocr_text \<noteq> []
                           then Inr (Some (ocr_marker page_num @ nl @ ocr_text))
                           else Inr None)))
          else Inr None)"

fun page_loop :: "pipeline \<Rightarrow> nat \<Rightarrow> pdf_page list \<Rightarrow> pystr list \<Rightarrow> pystr list io" where
  "page_loop self page_num [] text_parts = Inr text_parts"
| "page_loop self page_num (page # rest) text_parts =
     (case page_part self page_num page of
        Inl e \<Rightarrow> Inl e
      | Inr None \<Rightarrow> page_loop self (page_num + 1) rest text_parts
      | Inr (Some part) \<Rightarrow> page_loop self (page_num + 1) rest (text_parts @ [part]))"

text \<open>\<open>sep.join(parts)\<close>.\<close>

fun join :: "pystr \<Rightarrow> pystr list \<Rightarrow> pystr" where
  "join sep [] = []"
| "join sep [x] = x"
| "join sep (x # y # ys) = x @ sep @ join sep (y # ys)"

definition process_pdf_pymupdf :: "pipeline \<Rightarrow> world \<Rightarrow> extraction io" where
  "process_pdf_pymupdf self w =
     (case
        (case fitz_open w of
           Inl e \<Rightarrow> Inl e
         | Inr doc \<Rightarrow>
             (case page_loop self 0 (doc_pages doc) [] of
                Inl e \<Rightarrow> Inl e
              | Inr text_parts \<Rightarrow>
                  (case close doc of
                     Inl e \<Rightarrow> Inl e
                   | Inr _ \<Rightarrow>
                       (let full_text = join (nl @ nl) text_parts
                        in Inr ((extracted full_text (9 / 10) (lit ''pymupdf''))
                                  \<lparr>pages := Some (length (doc_pages doc))\<rparr>)))))
      of
        Inr r \<Rightarrow> Inr r
      | Inl e \<Rightarrow> Inr (failure (lit ''PyMuPDF processing failed: '' @ msg e)))"

definition process_pdf_fallback :: "world \<Rightarrow> extraction io" where
  "process_pdf_fallback w =
     Inr (failure (lit ''PDF processing requires PyMuPDF (pip install PyMuPDF)''))"

definition process_pdf :: "pipeline \<Rightarrow> world \<Rightarrow> extraction io" where
  "process_pdf self w =
     (if pymupdf_available self then process_pdf_pymupdf self w else process_pdf_fallback w)"

subsection \<open>process_document and validate_file\<close>

definition run_processor :: "pipeline \<Rightarrow> codecs \<Rightarrow> processor \<Rightarrow> world \<Rightarrow> extraction io" where
  "run_processor self decode p w =
     (case p of
        Process_pdf \<Rightarrow> process_pdf self w
      | Process_image \<Rightarrow> process_image self w
      | Process_text \<Rightarrow> process_text decode w)"

text \<open>The body of the \<open>try\<close> of \<open>process_document\<close>, then the function with its handler.\<close>

definition process_body :: "pipeline \<Rightarrow> codecs \<Rightarrow> world \<Rightarrow> extraction io" where
  "process_body self decode w =
     (let ct = detect_content_type w
      in case map_of supported_types ct of
           None \<Rightarrow>
             Inr ((failure (lit ''Unsupported file type: '' @ ct))
                    \<lparr>processing_time := Some (elapsed w)\<rparr>)
         | Some p \<Rightarrow>
             (case run_processor self decode p w of
                Inl e \<Rightarrow> Inl e
              | Inr result \<Rightarrow>
                  (case stat_size w of
                     Inl e \<Rightarrow> Inl e
                   | Inr st_size \<Rightarrow>
                       Inr (result\<lparr>processing_time := Some (elapsed w),
                                   file_size := Some st_size, content_type := Some ct\<rparr>))))"

definition process_document :: "pipeline \<Rightarrow> codecs \<Rightarrow> world \<Rightarrow> extraction io" where
  "process_document self decode w =
     (case process_body self decode w of
        Inr r \<Rightarrow> Inr r
      | Inl e \<Rightarrow> Inr ((failure (msg e))\<lparr>processing_time := Some (elapsed w)\<rparr>))"






section \<open>Concrete adapters, backends and replies\<close>

definition the_adapter :: adapter where
  "the_adapter = \<lparr>base_url = lit ''http://localhost:11434'', model = lit ''deepseek-coder''\<rparr>"

definition repr0 :: "json \<Rightarrow> pystr" where
  "repr0 v = lit ''{}''"

definition reply_500 :: reply where
  "reply_500 =
     Response \<lparr>status_code = 500, reason = lit ''Internal Server Error'',
               resp_url = lit ''http://localhost:11434/api/generate'',
               json_body = Inr (JObj [])\<rparr>"

definition reply_ok :: "nat \<Rightarrow> reply" where
  "reply_ok st =
     Response \<lparr>status_code = st, reason = lit ''OK'',
               resp_url = lit ''http://localhost:11434/api/generate'',
               json_body = Inr (JObj [(lit ''response'', JStr (lit ''ok''))])\<rparr>"

definition backend_500 :: backend where
  "backend_500 rq k = reply_500"

definition backend_500_500_200 :: backend where
  "backend_500_500_200 rq k = (if k < 2 then reply_500 else reply_ok 200)"

definition backend_304 :: backend where
  "backend_304 rq k = reply_ok 304"

definition generation_ok :: generation where
  "generation_ok =
     \<lparr>g_text = JStr (lit ''ok''), g_model = lit ''deepseek-coder'', prompt_tokens = JInt 0,
      completion_tokens = JInt 0, g_done = JBool True\<rparr>"

definition response_without_text :: response where
  "response_without_text =
     \<lparr>status_code = 200, reason = lit ''OK'',
      resp_url = lit ''http://localhost:11434/api/generate'',
      json_body = Inr (JObj [(lit ''model'', JStr (lit ''deepseek-coder''))])\<rparr>"

definition response_text_only :: response where
  "response_text_only =
     \<lparr>status_code = 200, reason = lit ''OK'',
      resp_url = lit ''http://localhost:11434/api/generate'',
      json_body = Inr (JObj [(lit ''response'', JStr (lit ''ok''))])\<rparr>"

definition curator_adapter :: adapter where
  "curator_adapter = \<lparr>base_url = lit ''http://localhost:11434'', model = lit ''mistral-7b''\<rparr>"

definition reply_null :: reply where
  "reply_null =
     Response \<lparr>status_code = 200, reason = lit ''OK'',
               resp_url = lit ''http://localhost:11434/api/generate'',
               json_body = Inr JNull\<rparr>"

definition backend_null :: backend where
  "backend_null rq k = reply_null"

text \<open>The class of the exception that an outcome raises, if it raises.\<close>

definition raised :: "'a io \<Rightarrow> exn_class option" where
  "raised x = (case x of Inl e \<Rightarrow> Some (cls e) | Inr _ \<Rightarrow> None)"

text \<open>
  The invariant of a result dictionary as the code keeps it: \<open>success\<close> is set; a failure
  carries no \<open>text\<close> key at all; a success carries \<open>text\<close> and its length.
\<close>

definition consistent :: "extraction \<Rightarrow> bool" where
  "consistent r \<longleftrightarrow>
     success r \<noteq> None
     \<and> (success r = Some False \<longrightarrow> r_text r = None)
     \<and> (success r = Some True \<longrightarrow> (\<exists>t. r_text r = Some t \<and> text_length r = Some (length t)))"

text \<open>Files and pipelines to run the model on.\<close>

definition no_file :: world where
  "no_file =
     \<lparr>suffix = [], path_exists = False, is_file = False,
      stat_size = Inl (Exn FileNotFoundError (lit ''No such file or directory'')),
      open_read = (\<lambda>encoding. Inl (Exn FileNotFoundError (lit ''No such file or directory''))),
      fitz_open = Inl (Exn RuntimeError (lit ''no such file'')),
      tesseract = Inl (Exn RuntimeError (lit ''cannot read input file'')),
      elapsed = 1 / 100\<rparr>"

definition image_file :: "nat \<Rightarrow> (int \<times> pystr) io \<Rightarrow> world" where
  "image_file n run =
     no_file\<lparr>suffix := lit ''.PNG'', path_exists := True, is_file := True, stat_size := Inr n,
             tesseract := run\<rparr>"

definition text_file :: "pybytes \<Rightarrow> world" where
  "text_file bs =
     no_file\<lparr>suffix := lit ''.txt'', path_exists := True, is_file := True,
             stat_size := Inr (length bs), open_read := (\<lambda>encoding. Inr bs)\<rparr>"

definition no_ocr :: pipeline where
  "no_ocr = \<lparr>tesseract_available = False, pymupdf_available = True\<rparr>"

definition full_pipeline :: pipeline where
  "full_pipeline = \<lparr>tesseract_available = True, pymupdf_available = True\<rparr>"

definition big_text :: pybytes where
  "big_text = replicate 52428801 0x41"




text \<open>
  The sections of a PDF as a reader sees them: for each page that contributes a part, the
  number of the page (from 1) and the part, in the order of the pages.
\<close>

fun numbered_parts :: "pipeline \<Rightarrow> nat \<Rightarrow> pdf_page list \<Rightarrow> (nat \<times> pystr) list" where
  "numbered_parts self page_num [] = []"
| "numbered_parts self page_num (page # rest) =
     (case page_part self page_num page of
        Inr (Some part) \<Rightarrow> (page_num + 1, part) # numbered_parts self (page_num + 1) rest
      | _ \<Rightarrow> numbered_parts self (page_num + 1) rest)"

definition text_page :: "pystr \<Rightarrow> pdf_page" where
  "text_page t =
     \<lparr>get_text = Inr t, save_png = Inr (), page_tesseract = Inr (0, []), unlink = Inr ()\<rparr>"

definition scanned_page :: "pystr \<Rightarrow> pdf_page" where
  "scanned_page out =
     \<lparr>get_text = Inr [], save_png = Inr (), page_tesseract = Inr (0, out), unlink = Inr ()\<rparr>"

definition pdf_file :: "pdf_page list \<Rightarrow> world" where
  "pdf_file ps =
     no_file\<lparr>suffix := lit ''.pdf'', path_exists := True, is_file := True, stat_size := Inr 4096,
             fitz_open := Inr \<lparr>doc_pages = ps, close = Inr ()\<rparr>\<rparr>"

definition three_pages :: "pdf_page list" where
  "three_pages = [text_page (lit ''Intro''), scanned_page (lit ''Scan''), text_page (lit ''End'')]"

definition blank_scan :: "pdf_page list" where
  "blank_scan = [text_page (lit ''Intro''), scanned_page []]"

section \<open>Properties of the generation client\<close>

lemma lit_eq_iff [simp]: "lit s = lit t \<longleftrightarrow> s = t"
  by (simp add: lit_def inj_map_eq_map inj_of_char)

lemma upt3: "[0..<3] = [0, 1, 2::nat]"
  by (simp add: upt_rec)

lemma retry_loop_fail_step:
  assumes "attempt_fails repr m (post a)" and "a \<noteq> 2"
  shows "retry_loop self repr m post (a # rest) =
           (fst (retry_loop self repr m post rest),
            Post a # Sleep (exponential_backoff a) # snd (retry_loop self repr m post rest))"
  using assms
  by (auto simp: attempt_fails_def handled_def Let_def split: sum.splits prod.splits)

lemma retry_loop_fail_last:
  assumes "attempt_fails repr m (post 2)"
  shows "\<exists>e. retry_loop self repr m post (2 # rest) = (Inl e, [Post 2])
              \<and> (cls e = ConnectionError \<or> cls e = ValueError)"
  using assms
  by (auto simp: attempt_fails_def handled_def split: sum.splits)

lemma retry_loop_success:
  assumes "attempt_body repr m (post a) = Inr g"
  shows "retry_loop self repr m post (a # rest) = (Inr (Some g), [Post a])"
  using assms by simp

lemma attempt_fails_500: "attempt_fails repr m reply_500"
  by (simp add: attempt_fails_def attempt_body_def reply_500_def raise_for_status_def
        handled_def is_RequestException_def is_requests_ConnectionError_def)

lemma attempt_body_ok:
  "\<not> (400 \<le> st \<and> st < 600)
   \<Longrightarrow> attempt_body repr (lit ''deepseek-coder'') (reply_ok st) = Inr generation_ok"
  by (auto simp: attempt_body_def reply_ok_def raise_for_status_def contains_def subscript_def
        get_default_def generation_ok_def)

text \<open>
  When each of the three attempts fails with an error that the loop handles (a connection
  error, another request error such as an error status or a timeout, or a value error such
  as a body without the response field), \<open>generate\<close> sends exactly three requests, sleeps
  1 and 2 seconds between them, and raises a \<open>ConnectionError\<close> or a \<open>ValueError\<close> after
  the third.
\<close>

lemma generate_three_attempts:
  assumes "attempt_fails repr (model_or model_arg (model self))
             (be (payload self prompt max_tokens temp model_arg) 0)"
    and "attempt_fails repr (model_or model_arg (model self))
             (be (payload self prompt max_tokens temp model_arg) 1)"
    and "attempt_fails repr (model_or model_arg (model self))
             (be (payload self prompt max_tokens temp model_arg) 2)"
  shows "attempts (snd (generate self repr be prompt max_tokens temp model_arg)) = 3
         \<and> sleeps (snd (generate self repr be prompt max_tokens temp model_arg)) = [1, 2]
         \<and> (\<exists>e. fst (generate self repr be prompt max_tokens temp model_arg) = Inl e
                \<and> (cls e = ConnectionError \<or> cls e = ValueError))"
proof -
  let ?m = "model_or model_arg (model self)"
  let ?post = "be (payload self prompt max_tokens temp model_arg)"
  obtain e where e: "retry_loop self repr ?m ?post [2] = (Inl e, [Post 2])"
    and c: "cls e = ConnectionError \<or> cls e = ValueError"
    using retry_loop_fail_last [where post = "?post", OF assms(3)] by blast
  have "generate self repr be prompt max_tokens temp model_arg =
          (Inl e, [Post 0, Sleep 1, Post 1, Sleep 2, Post 2])"
    unfolding generate_def Let_def upt3
    by (simp only: retry_loop_fail_step [where post = "?post" and a = 0, OF assms(1)]
          retry_loop_fail_step [where post = "?post" and a = 1, OF assms(2)] e)
       (simp add: exponential_backoff_def)
  then show ?thesis using c by (simp add: attempts_def sleeps_def)
qed

lemma generate_three_attempts_example:
  "attempt_fails repr0 (model_or None (model the_adapter))
     (backend_500 (payload the_adapter (lit ''Hello from test'') 1024 (7 / 10) None) 0)
   \<and> attempts (snd (generate the_adapter repr0 backend_500 (lit ''Hello from test'') 1024
                      (7 / 10) None)) = 3
   \<and> sleeps (snd (generate the_adapter repr0 backend_500 (lit ''Hello from test'') 1024
                      (7 / 10) None)) = [1, 2]"
proof -
  have h: "attempt_fails repr0 (model_or None (model the_adapter))
             (backend_500 (payload the_adapter (lit ''Hello from test'') 1024 (7 / 10) None) k)"
    for k by (simp add: backend_500_def attempt_fails_500)
  from generate_three_attempts
         [where be = backend_500 and self = the_adapter and repr = repr0 and model_arg = None
            and prompt = "lit ''Hello from test''" and max_tokens = 1024 and temp = "7 / 10",
          OF h h h] h
  show ?thesis by blast
qed

text \<open>
  C3. The claim is about every backend that fails every attempt. A backend that answers
  each request with status 200 and the JSON body \<open>null\<close> fails every attempt, but the
  membership test \<open>"response" not in result\<close> then raises a \<open>TypeError\<close>, which none of the
  three handlers catches: \<open>generate\<close> sends one request, does not sleep, and raises the
  \<open>TypeError\<close>, where the claim and the docstring of \<open>generate\<close> promise three attempts
  and a \<open>ConnectionError\<close> or \<open>ValueError\<close>.
\<close>

theorem generate_null_body_single_attempt:
  "raised (attempt_body repr0 (lit ''deepseek-coder'') reply_null) = Some TypeError
   \<and> raised (fst (generate the_adapter repr0 backend_null (lit ''Hello from test'') 1024
                    (7 / 10) None)) = Some TypeError
   \<and> snd (generate the_adapter repr0 backend_null (lit ''Hello from test'') 1024 (7 / 10) None)
       = [Post 0]
   \<and> attempts (snd (generate the_adapter repr0 backend_null (lit ''Hello from test'') 1024
                      (7 / 10) None)) = 1"
proof -
  have b: "attempt_body repr m reply_null = Inl (Exn TypeError (lit ''argument is not iterable''))"
    for repr m
    by (simp add: attempt_body_def reply_null_def raise_for_status_def contains_def)
  show ?thesis
    by (simp add: generate_def upt3 backend_null_def b raised_def attempts_def
          is_requests_ConnectionError_def is_RequestException_def is_ValueError_def)
qed



lemma attempt_body_Inr:
  assumes "attempt_body repr m rp = Inr g"
  shows "\<exists>r kvs t. rp = Response r \<and> \<not> (400 \<le> status_code r \<and> status_code r < 600)
           \<and> json_body r = Inr (JObj kvs) \<and> map_of kvs (lit ''response'') = Some t
           \<and> g = \<lparr>g_text = t, g_model = m,
                  prompt_tokens = (case map_of kvs (lit ''prompt_eval_count'') of
                                     None \<Rightarrow> JInt 0 | Some x \<Rightarrow> x),
                  completion_tokens = (case map_of kvs (lit ''eval_count'') of
                                     None \<Rightarrow> JInt 0 | Some x \<Rightarrow> x),
                  g_done = (case map_of kvs (lit ''done'') of
                                     None \<Rightarrow> JBool True | Some x \<Rightarrow> x)\<rparr>"
proof (cases rp)
  case (PostRaises e)
  with assms show ?thesis by (simp add: attempt_body_def)
next
  case (Response r)
  with assms have st: "\<not> (400 \<le> status_code r \<and> status_code r < 600)"
    by (auto simp: attempt_body_def raise_for_status_def split: if_splits)
  then have rs: "raise_for_status r = Inr ()"
    by (auto simp: raise_for_status_def)
  from assms Response rs obtain v where v: "json_body r = Inr v"
    by (cases "json_body r") (auto simp: attempt_body_def)
  show ?thesis
  proof (cases v)
    case (JObj kvs)
    with assms Response rs v show ?thesis
      using st
      by (cases "map_of kvs (lit ''response'')")
         (auto simp: attempt_body_def contains_def subscript_def get_default_def
               split: option.splits)
  qed (use assms Response rs v in
        \<open>auto simp: attempt_body_def contains_def subscript_def get_default_def
              split: bool.splits if_splits\<close>)
qed

lemma retry_loop_Inr:
  "retry_loop self repr m post as = (Inr (Some g), evs)
   \<Longrightarrow> \<exists>k \<in> set as. attempt_body repr m (post k) = Inr g"
proof (induction as arbitrary: evs)
  case Nil
  then show ?case by simp
next
  case (Cons a as)
  show ?case
  proof (cases "attempt_body repr m (post a)")
    case (Inr g')
    with Cons.prems show ?thesis by simp
  next
    case (Inl e)
    with Cons.prems obtain evs' where "retry_loop self repr m post as = (Inr (Some g), evs')"
      by (auto simp: Let_def split: if_splits prod.splits)
    from Cons.IH [OF this] show ?thesis by auto
  qed
qed

lemma object_without_response:
  assumes "\<not> (400 \<le> status_code r \<and> status_code r < 600)"
    and "json_body r = Inr (JObj kvs)" and "map_of kvs (lit ''response'') = None"
  shows "attempt_body repr m (Response r) =
           Inl (Exn ValueError (lit ''Invalid response format: '' @ repr (JObj kvs)))"
  using assms by (auto simp: attempt_body_def raise_for_status_def contains_def)

lemma retry_loop_fail_fail_success:
  assumes "attempt_fails repr m (post 0)" and "attempt_fails repr m (post 1)"
    and "attempt_body repr m (post 2) = Inr g"
  shows "retry_loop self repr m post [0, 1, 2] =
           (Inr (Some g), [Post 0, Sleep 1, Post 1, Sleep 2, Post 2])"
  by (simp only: retry_loop_fail_step [where post = post and a = 0, OF assms(1)]
        retry_loop_fail_step [where post = post and a = 1, OF assms(2)]
        retry_loop_success [where post = post and a = 2, OF assms(3)])
     (simp add: exponential_backoff_def)

lemma generate_500_500_200:
  "generate the_adapter repr0 backend_500_500_200 (lit ''Hello from test'') 1024 (7 / 10) None
     = (Inr (Some generation_ok), [Post 0, Sleep 1, Post 1, Sleep 2, Post 2])"
  unfolding generate_def Let_def upt3
  by (rule retry_loop_fail_fail_success)
     (simp_all add: backend_500_500_200_def attempt_fails_500 model_or_def the_adapter_def
        attempt_body_ok)

text \<open>
  C5, as amended. \<open>generate\<close> returns a result only when one of its at most three requests
  got a response whose status is not an error status (not within 400 to 599, which is all
  that \<open>raise_for_status\<close> rejects) and whose body is a JSON object with the field
  \<open>response\<close>; the result holds that field, and the token counts of the body or 0 where
  they are absent. An object without the field is a \<open>ValueError\<close> that the loop handles:
  a sleep and the next attempt, and on the third attempt the terminal \<open>ValueError\<close>.
  Absent token counts do not fail an attempt.
\<close>

theorem generate_result_validated:
  "(fst (generate self repr be prompt max_tokens temp model_arg) = Inr (Some g) \<longrightarrow>
      (\<exists>k<3. \<exists>r kvs t.
         be (payload self prompt max_tokens temp model_arg) k = Response r
         \<and> \<not> (400 \<le> status_code r \<and> status_code r < 600)
         \<and> json_body r = Inr (JObj kvs) \<and> map_of kvs (lit ''response'') = Some t
         \<and> g = \<lparr>g_text = t, g_model = model_or model_arg (model self),
                prompt_tokens = (case map_of kvs (lit ''prompt_eval_count'') of
                                   None \<Rightarrow> JInt 0 | Some x \<Rightarrow> x),
                completion_tokens = (case map_of kvs (lit ''eval_count'') of
                                   None \<Rightarrow> JInt 0 | Some x \<Rightarrow> x),
                g_done = (case map_of kvs (lit ''done'') of
                                   None \<Rightarrow> JBool True | Some x \<Rightarrow> x)\<rparr>))
   \<and> (\<not> (400 \<le> status_code r' \<and> status_code r' < 600)
        \<and> json_body r' = Inr (JObj kvs') \<and> map_of kvs' (lit ''response'') = None
        \<and> post a = Response r' \<longrightarrow>
        (if a = 2
         then retry_loop self repr m post (a # rest) =
                (Inl (Exn ValueError (lit ''Invalid response from Ollama: ''
                        @ lit ''Invalid response format: '' @ repr (JObj kvs'))), [Post a])
         else retry_loop self repr m post (a # rest) =
                (fst (retry_loop self repr m post rest),
                 Post a # Sleep (exponential_backoff a)
                   # snd (retry_loop self repr m post rest))))
   \<and> (\<not> (400 \<le> status_code r'' \<and> status_code r'' < 600)
        \<and> json_body r'' = Inr (JObj kvs'') \<and> map_of kvs'' (lit ''response'') = Some t''
        \<and> map_of kvs'' (lit ''prompt_eval_count'') = None
        \<and> map_of kvs'' (lit ''eval_count'') = None \<longrightarrow>
        (\<exists>d. attempt_body repr m (Response r'') =
               Inr \<lparr>g_text = t'', g_model = m, prompt_tokens = JInt 0,
                    completion_tokens = JInt 0, g_done = d\<rparr>))"
proof (intro conjI impI)
  let ?m = "model_or model_arg (model self)"
  let ?post = "be (payload self prompt max_tokens temp model_arg)"
  assume "fst (generate self repr be prompt max_tokens temp model_arg) = Inr (Some g)"
  then obtain evs where "retry_loop self repr ?m ?post [0..<3] = (Inr (Some g), evs)"
    by (cases "generate self repr be prompt max_tokens temp model_arg")
       (simp add: generate_def)
  from retry_loop_Inr [OF this] obtain k where k: "k < 3"
    and b: "attempt_body repr ?m (?post k) = Inr g" by auto
  from attempt_body_Inr [OF b] k
  show "\<exists>k<3. \<exists>r kvs t. ?post k = Response r
               \<and> \<not> (400 \<le> status_code r \<and> status_code r < 600)
               \<and> json_body r = Inr (JObj kvs) \<and> map_of kvs (lit ''response'') = Some t
               \<and> g = \<lparr>g_text = t, g_model = ?m,
                      prompt_tokens = (case map_of kvs (lit ''prompt_eval_count'') of
                                         None \<Rightarrow> JInt 0 | Some x \<Rightarrow> x),
                      completion_tokens = (case map_of kvs (lit ''eval_count'') of
                                         None \<Rightarrow> JInt 0 | Some x \<Rightarrow> x),
                      g_done = (case map_of kvs (lit ''done'') of
                                         None \<Rightarrow> JBool True | Some x \<Rightarrow> x)\<rparr>"
    by blast
next
  assume h: "\<not> (400 \<le> status_code r' \<and> status_code r' < 600)
        \<and> json_body r' = Inr (JObj kvs') \<and> map_of kvs' (lit ''response'') = None
        \<and> post a = Response r'"
  then have b: "attempt_body repr m (post a) =
           Inl (Exn ValueError (lit ''Invalid response format: '' @ repr (JObj kvs')))"
    by (simp add: object_without_response)
  then have f: "attempt_fails repr m (post a)"
    by (simp add: attempt_fails_def handled_def is_ValueError_def)
  show "if a = 2
         then retry_loop self repr m post (a # rest) =
                (Inl (Exn ValueError (lit ''Invalid response from Ollama: ''
                        @ lit ''Invalid response format: '' @ repr (JObj kvs'))), [Post a])
         else retry_loop self repr m post (a # rest) =
                (fst (retry_loop self repr m post rest),
                 Post a # Sleep (exponential_backoff a)
                   # snd (retry_loop self repr m post rest))"
  proof (cases "a = 2")
    case True
    with b show ?thesis
      by (simp add: is_requests_ConnectionError_def is_RequestException_def is_ValueError_def)
  next
    case False
    from retry_loop_fail_step [where post = post and a = a, OF f False] False
    show ?thesis by simp
  qed
next
  assume "\<not> (400 \<le> status_code r'' \<and> status_code r'' < 600)
        \<and> json_body r'' = Inr (JObj kvs'') \<and> map_of kvs'' (lit ''response'') = Some t''
        \<and> map_of kvs'' (lit ''prompt_eval_count'') = None
        \<and> map_of kvs'' (lit ''eval_count'') = None"
  then show "\<exists>d. attempt_body repr m (Response r'') =
               Inr \<lparr>g_text = t'', g_model = m, prompt_tokens = JInt 0,
                    completion_tokens = JInt 0, g_done = d\<rparr>"
    by (auto simp: attempt_body_def raise_for_status_def contains_def subscript_def
          get_default_def split: option.splits)
qed

theorem generate_result_validated_witness:
  "fst (generate the_adapter repr0 backend_500_500_200 (lit ''Hello from test'') 1024 (7 / 10)
          None) = Inr (Some generation_ok)
   \<and> backend_500_500_200 (payload the_adapter (lit ''Hello from test'') 1024 (7 / 10) None) 2
       = reply_ok 200
   \<and> json_body response_without_text = Inr (JObj [(lit ''model'', JStr (lit ''deepseek-coder''))])
   \<and> map_of [(lit ''model'', JStr (lit ''deepseek-coder''))] (lit ''response'') = None
   \<and> retry_loop the_adapter repr0 (lit ''deepseek-coder'') (\<lambda>k. Response response_without_text)
        [0, 1, 2]
       = (Inl (Exn ValueError (lit ''Invalid response from Ollama: Invalid response format: {}'')),
          [Post 0, Sleep 1, Post 1, Sleep 2, Post 2])
   \<and> attempt_body repr0 (lit ''deepseek-coder'') (Response response_text_only)
       = Inr generation_ok"
proof -
  let ?kvs = "[(lit ''model'', JStr (lit ''deepseek-coder''))]"
  let ?p = "\<lambda>k::nat. Response response_without_text"
  have g: "fst (generate the_adapter repr0 backend_500_500_200 (lit ''Hello from test'') 1024
                  (7 / 10) None) = Inr (Some generation_ok)"
    by (simp add: generate_500_500_200)
  have h2: "\<not> (400 \<le> status_code response_without_text \<and> status_code response_without_text < 600)
        \<and> json_body response_without_text = Inr (JObj ?kvs)
        \<and> map_of ?kvs (lit ''response'') = None
        \<and> ?p a = Response response_without_text" for a
    by (simp add: response_without_text_def)
  have h3: "\<not> (400 \<le> status_code response_text_only \<and> status_code response_text_only < 600)
        \<and> json_body response_text_only = Inr (JObj [(lit ''response'', JStr (lit ''ok''))])
        \<and> map_of [(lit ''response'', JStr (lit ''ok''))] (lit ''response'') = Some (JStr (lit ''ok''))
        \<and> map_of [(lit ''response'', JStr (lit ''ok''))] (lit ''prompt_eval_count'') = None
        \<and> map_of [(lit ''response'', JStr (lit ''ok''))] (lit ''eval_count'') = None"
    by (simp add: response_text_only_def)
  have s: "if a = 2
         then retry_loop the_adapter repr0 (lit ''deepseek-coder'') ?p (a # rest) =
                (Inl (Exn ValueError (lit ''Invalid response from Ollama: ''
                        @ lit ''Invalid response format: '' @ repr0 (JObj ?kvs))), [Post a])
         else retry_loop the_adapter repr0 (lit ''deepseek-coder'') ?p (a # rest) =
                (fst (retry_loop the_adapter repr0 (lit ''deepseek-coder'') ?p rest),
                 Post a # Sleep (exponential_backoff a)
                   # snd (retry_loop the_adapter repr0 (lit ''deepseek-coder'') ?p rest))"
    for a rest
    using generate_result_validated
         [where self = the_adapter and repr = repr0 and m = "lit ''deepseek-coder''"
            and r' = response_without_text and kvs' = ?kvs and post = ?p
            and a = a and rest = rest] h2
    by blast
  have c3: "\<exists>d. attempt_body repr0 (lit ''deepseek-coder'') (Response response_text_only)
       = Inr \<lparr>g_text = JStr (lit ''ok''), g_model = lit ''deepseek-coder'',
              prompt_tokens = JInt 0, completion_tokens = JInt 0, g_done = d\<rparr>"
    using generate_result_validated
         [where repr = repr0 and m = "lit ''deepseek-coder''"
            and r'' = response_text_only and kvs'' = "[(lit ''response'', JStr (lit ''ok''))]"
            and t'' = "JStr (lit ''ok'')"] h3
    by blast
  have l: "lit ''Invalid response from Ollama: '' @ lit ''Invalid response format: '' @ repr0 v
           = lit ''Invalid response from Ollama: Invalid response format: {}''" for v
    by (simp add: lit_def repr0_def)
  have r: "retry_loop the_adapter repr0 (lit ''deepseek-coder'') ?p [0, 1, 2]
       = (Inl (Exn ValueError (lit ''Invalid response from Ollama: Invalid response format: {}'')),
          [Post 0, Sleep 1, Post 1, Sleep 2, Post 2])"
    using s [of 0 "[1, 2]"] s [of 1 "[2]"] s [of 2 "[]"]
    by (simp add: l exponential_backoff_def)
  from c3 have c3': "attempt_body repr0 (lit ''deepseek-coder'') (Response response_text_only)
       = Inr generation_ok"
    by (auto simp: generation_ok_def attempt_body_def response_text_only_def get_default_def
          raise_for_status_def contains_def subscript_def)
  show ?thesis
    using g h2 c3' r
    by (simp add: backend_500_500_200_def)
qed


text \<open>
  The claim as written fails at a response with status 304, which is neither an error for
  \<open>raise_for_status\<close> nor a 2xx status: \<open>generate\<close> returns a result from it.
\<close>

theorem generate_non_2xx_counterexample:
  "fst (generate the_adapter repr0 backend_304 (lit ''Hello from test'') 1024 (7 / 10) None)
     = Inr (Some generation_ok)
   \<and> backend_304 (payload the_adapter (lit ''Hello from test'') 1024 (7 / 10) None) 0
     = reply_ok 304
   \<and> \<not> (200 \<le> (304::nat) \<and> (304::nat) < 300)"
  by (simp add: generate_def upt3 backend_304_def the_adapter_def model_or_def attempt_body_ok)

section \<open>Properties of the curation client\<close>

text \<open>
  C8. \<open>curate_prompt\<close> always returns a result, never an exception; and when the call of
  \<open>generate\<close> raises any exception at all, the result is the fallback: the original
  prompt unchanged as \<open>refined\<close>, \<open>success\<close> false, and the message of the exception.
\<close>

theorem curate_prompt_fallback:
  "(\<exists>c. fst (curate_prompt adp cmodel repr be prompt instruction) = Inr c)
   \<and> (fst (generate adp repr be (curation_prompt prompt instruction) 2048 (3 / 10) None) = Inl e
        \<longrightarrow> curate_prompt adp cmodel repr be prompt instruction =
              (Inr \<lparr>refined = prompt, original_length = length prompt,
                    refined_length = length prompt, curator_model = cmodel,
                    c_success = False, c_error = Some (msg e), fallback = Some True\<rparr>,
               snd (generate adp repr be (curation_prompt prompt instruction) 2048 (3 / 10)
                      None)))"
proof -
  obtain res evs where g:
    "generate adp repr be (curation_prompt prompt instruction) 2048 (3 / 10) None = (res, evs)"
    by (cases "generate adp repr be (curation_prompt prompt instruction) 2048 (3 / 10) None")
  show ?thesis
  proof (cases res)
    case (Inl e')
    with g show ?thesis by (simp add: curate_prompt_def curation_fallback_def)
  next
    case (Inr result)
    with g show ?thesis
      by (cases "refine_text result") (simp_all add: curate_prompt_def)
  qed
qed

lemma generate_500:
  "generate adp repr0 backend_500 p mt t None =
     (Inl (Exn ConnectionError (lit ''Request to Ollama failed: 500 Server Error: Internal Server Error for url: http://localhost:11434/api/generate'')),
      [Post 0, Sleep 1, Post 1, Sleep 2, Post 2])"
proof -
  have b: "attempt_body repr m reply_500 =
             Inl (Exn Requests_HTTPError (lit ''500 Server Error: Internal Server Error for url: http://localhost:11434/api/generate''))" for repr m
    by (simp add: attempt_body_def reply_500_def raise_for_status_def str_nat.simps lit_def)
  show ?thesis
    by (simp add: generate_def upt3 backend_500_def b is_requests_ConnectionError_def
          is_RequestException_def exponential_backoff_def)
       (simp add: lit_def)
qed

theorem curate_prompt_fallback_witness:
  "fst (generate curator_adapter repr0 backend_500
          (curation_prompt (lit ''Explain recursion'') []) 2048 (3 / 10) None)
     = Inl (Exn ConnectionError (lit ''Request to Ollama failed: 500 Server Error: Internal Server Error for url: http://localhost:11434/api/generate''))
   \<and> fst (curate_prompt curator_adapter (lit ''mistral-7b'') repr0 backend_500
            (lit ''Explain recursion'') [])
     = Inr \<lparr>refined = lit ''Explain recursion'', original_length = 17, refined_length = 17,
            curator_model = lit ''mistral-7b'', c_success = False,
            c_error = Some (lit ''Request to Ollama failed: 500 Server Error: Internal Server Error for url: http://localhost:11434/api/generate''),
            fallback = Some True\<rparr>"
proof -
  have h: "fst (generate curator_adapter repr0 backend_500
          (curation_prompt (lit ''Explain recursion'') []) 2048 (3 / 10) None)
     = Inl (Exn ConnectionError (lit ''Request to Ollama failed: 500 Server Error: Internal Server Error for url: http://localhost:11434/api/generate''))"
    by (simp add: generate_500)
  from curate_prompt_fallback
         [where adp = curator_adapter and cmodel = "lit ''mistral-7b''" and repr = repr0
            and be = backend_500 and prompt = "lit ''Explain recursion''" and instruction = "[]"
            and e = "Exn ConnectionError (lit ''Request to Ollama failed: 500 Server Error: Internal Server Error for url: http://localhost:11434/api/generate'')"]
       h
  show ?thesis by (simp add: lit_def)
qed

section \<open>Properties of the ingestion pipeline\<close>

lemma consistent_failure [simp]: "consistent (failure e)"
  by (simp add: consistent_def failure_def no_keys_def)

lemma consistent_extracted [simp]: "consistent (extracted t c m)"
  by (simp add: consistent_def extracted_def no_keys_def)

lemma consistent_updates [simp]:
  "consistent (r\<lparr>warning := x\<rparr>) = consistent r"
  "consistent (r\<lparr>pages := n\<rparr>) = consistent r"
  "consistent (r\<lparr>processing_time := t\<rparr>) = consistent r"
  "consistent (r\<lparr>file_size := s\<rparr>) = consistent r"
  "consistent (r\<lparr>content_type := c\<rparr>) = consistent r"
  by (simp_all add: consistent_def)

lemma try_encodings_consistent:
  "try_encodings decode w encs = Inr r \<Longrightarrow> consistent r"
  by (induction encs) (auto split: sum.splits if_splits)

lemma process_text_consistent: "process_text decode w = Inr r \<Longrightarrow> consistent r"
  by (auto simp: process_text_def split: sum.splits if_splits dest: try_encodings_consistent)

lemma process_image_consistent: "process_image self w = Inr r \<Longrightarrow> consistent r"
  by (auto simp: process_image_def split: sum.splits if_splits)

lemma process_pdf_consistent: "process_pdf self w = Inr r \<Longrightarrow> consistent r"
  by (auto simp: process_pdf_def process_pdf_pymupdf_def process_pdf_fallback_def Let_def
        split: sum.splits if_splits)

lemma run_processor_consistent: "run_processor self decode p w = Inr r \<Longrightarrow> consistent r"
  by (cases p)
     (auto simp: run_processor_def
        dest: process_text_consistent process_image_consistent process_pdf_consistent)

lemma process_body_consistent: "process_body self decode w = Inr r \<Longrightarrow> consistent r"
  by (auto simp: process_body_def Let_def split: option.splits sum.splits
        dest: run_processor_consistent)

text \<open>
  C1, as amended. For every document of a supported kind, \<open>process_document\<close> returns a
  result dictionary and raises nothing; \<open>success\<close> is set in it; when \<open>success\<close> is
  false the dictionary has no \<open>text\<close> key (so \<open>text\<close> is not the empty string, it is
  absent), and when \<open>success\<close> is true it has \<open>text\<close> and \<open>text_length\<close> with
  \<open>text_length = len(text)\<close>.
\<close>

theorem process_document_never_raises:
  assumes "map_of supported_types (detect_content_type w) \<noteq> None"
  shows "\<exists>r. process_document self decode w = Inr r
             \<and> success r \<noteq> None
             \<and> (success r = Some False \<longrightarrow> r_text r = None)
             \<and> (success r = Some True \<longrightarrow>
                  (\<exists>t. r_text r = Some t \<and> text_length r = Some (length t)))"
proof (cases "process_body self decode w")
  case (Inl e)
  then show ?thesis by (auto simp: process_document_def failure_def no_keys_def)
next
  case (Inr r)
  then have "consistent r" by (rule process_body_consistent)
  with Inr show ?thesis by (auto simp: process_document_def consistent_def)
qed

lemma detect_PNG: "suffix w = lit ''.PNG'' \<Longrightarrow> detect_content_type w = lit ''image/png''"
  by (simp add: detect_content_type_def lower_def lower_char_def type_map_def lit_def)

lemma detect_txt: "suffix w = lit ''.txt'' \<Longrightarrow> detect_content_type w = lit ''text/plain''"
  by (simp add: detect_content_type_def lower_def lower_char_def type_map_def lit_def)

lemma detect_image_file [simp]: "detect_content_type (image_file n run) = lit ''image/png''"
  by (rule detect_PNG) (simp add: image_file_def)

lemma detect_text_file [simp]: "detect_content_type (text_file bs) = lit ''text/plain''"
  by (rule detect_txt) (simp add: text_file_def)

lemma supported_image [simp]: "map_of supported_types (lit ''image/png'') = Some Process_image"
  by (simp add: supported_types_def)

lemma supported_text [simp]: "map_of supported_types (lit ''text/plain'') = Some Process_text"
  by (simp add: supported_types_def)

lemma process_document_no_ocr:
  "process_document no_ocr decode (image_file n run) =
     Inr ((failure (lit ''OCR requires Tesseract (install tesseract-ocr)''))
            \<lparr>processing_time := Some (1 / 100), file_size := Some n,
             content_type := Some (lit ''image/png'')\<rparr>)"
  by (simp add: process_document_def process_body_def run_processor_def process_image_def
        no_ocr_def)
     (simp add: image_file_def no_file_def)

theorem process_document_never_raises_witness:
  "map_of supported_types (detect_content_type (image_file 2048 (Inr (0, lit ''scan'')))) \<noteq> None
   \<and> process_document no_ocr python_codecs (image_file 2048 (Inr (0, lit ''scan''))) =
       Inr ((failure (lit ''OCR requires Tesseract (install tesseract-ocr)''))
            \<lparr>processing_time := Some (1 / 100), file_size := Some 2048,
             content_type := Some (lit ''image/png'')\<rparr>)
   \<and> r_text ((failure (lit ''OCR requires Tesseract (install tesseract-ocr)''))
            \<lparr>processing_time := Some (1 / 100), file_size := Some 2048,
             content_type := Some (lit ''image/png'')\<rparr>) = None"
proof -
  have h: "map_of supported_types (detect_content_type (image_file 2048 (Inr (0, lit ''scan''))))
             \<noteq> None"
    by simp
  from process_document_never_raises [OF h, of no_ocr python_codecs] h
  show ?thesis by (simp add: process_document_no_ocr) (simp add: failure_def no_keys_def)
qed

text \<open>
  The claim as written asks for \<open>text == ""\<close> on failure. An image handed to a pipeline
  without Tesseract gives a failure whose dictionary has no \<open>text\<close> at all.
\<close>

theorem process_document_failure_has_no_text_counterexample:
  "process_document no_ocr python_codecs (image_file 2048 (Inr (0, lit ''scan''))) =
       Inr ((failure (lit ''OCR requires Tesseract (install tesseract-ocr)''))
            \<lparr>processing_time := Some (1 / 100), file_size := Some 2048,
             content_type := Some (lit ''image/png'')\<rparr>)
   \<and> success ((failure (lit ''OCR requires Tesseract (install tesseract-ocr)''))
            \<lparr>processing_time := Some (1 / 100), file_size := Some 2048,
             content_type := Some (lit ''image/png'')\<rparr>) = Some False
   \<and> r_text ((failure (lit ''OCR requires Tesseract (install tesseract-ocr)''))
            \<lparr>processing_time := Some (1 / 100), file_size := Some 2048,
             content_type := Some (lit ''image/png'')\<rparr>) \<noteq> Some []"
  by (simp add: process_document_no_ocr) (simp add: failure_def no_keys_def)







lemma length_big [simp]: "length big_text = 52428801"
  by (simp add: big_text_def)








text \<open>
  C9. For an image, with Tesseract available, a run of Tesseract that ends with a non-zero
  exit status makes \<open>_ocr_image\<close> return the empty string, and \<open>process_document\<close>
  reports a success with empty text, length 0 and confidence 0.8 (the file size being
  readable).
\<close>

theorem ocr_failure_reported_as_success:
  assumes "map_of supported_types (detect_content_type w) = Some Process_image"
    and "tesseract_available self"
    and "tesseract w = Inr (returncode, stdout)" and "returncode \<noteq> 0"
    and "stat_size w = Inr sz"
  shows "ocr_image (tesseract w) = Inr []
         \<and> process_document self decode w =
             Inr \<lparr>success = Some True, r_text = Some [], text_length = Some 0,
                  confidence = Some (8 / 10), r_method = Some (lit ''tesseract_ocr''),
                  error = None, warning = None, pages = None,
                  processing_time = Some (elapsed w), file_size = Some sz,
                  content_type = Some (detect_content_type w)\<rparr>"
  using assms
  by (simp add: process_document_def process_body_def run_processor_def process_image_def
        ocr_image_def run_checked_def is_CalledProcessError_def extracted_def no_keys_def)

theorem ocr_failure_reported_as_success_witness:
  "map_of supported_types (detect_content_type (image_file 2048 (Inr (1, [])))) = Some Process_image
   \<and> tesseract_available full_pipeline
   \<and> tesseract (image_file 2048 (Inr (1, []))) = Inr (1, [])
   \<and> (1::int) \<noteq> 0
   \<and> stat_size (image_file 2048 (Inr (1, []))) = Inr 2048
   \<and> process_document full_pipeline python_codecs (image_file 2048 (Inr (1, []))) =
        Inr \<lparr>success = Some True, r_text = Some [], text_length = Some 0,
             confidence = Some (8 / 10), r_method = Some (lit ''tesseract_ocr''),
             error = None, warning = None, pages = None,
             processing_time = Some (1 / 100), file_size = Some 2048,
             content_type = Some (lit ''image/png'')\<rparr>"
proof -
  have h: "map_of supported_types (detect_content_type (image_file 2048 (Inr (1, []))))
             = Some Process_image"
    "tesseract_available full_pipeline"
    "tesseract (image_file 2048 (Inr (1, []))) = Inr (1, [])"
    "(1::int) \<noteq> 0"
    "stat_size (image_file 2048 (Inr (1, []))) = Inr 2048"
    by (simp, simp_all add: image_file_def full_pipeline_def)
  have e: "elapsed (image_file 2048 (Inr (1, []))) = 1 / 100"
    by (simp add: image_file_def no_file_def)
  from ocr_failure_reported_as_success [OF h, where decode = python_codecs] h e
  show ?thesis by simp
qed





lemma page_loop_parts:
  "page_loop self k ps parts = Inr out \<Longrightarrow> out = parts @ map snd (numbered_parts self k ps)"
proof (induction ps arbitrary: k parts)
  case Nil
  then show ?case by simp
next
  case (Cons p ps)
  show ?case
  proof (cases "page_part self k p")
    case (Inl e)
    with Cons.prems show ?thesis by simp
  next
    case (Inr x)
    show ?thesis
    proof (cases x)
      case None
      with Inr Cons.prems have "page_loop self (k + 1) ps parts = Inr out" by simp
      from Cons.IH [OF this] Inr None show ?thesis by simp
    next
      case (Some part)
      with Inr Cons.prems have "page_loop self (k + 1) ps (parts @ [part]) = Inr out" by simp
      from Cons.IH [OF this] Inr Some show ?thesis by simp
    qed
  qed
qed

lemma page_loop_all_pages:
  "page_loop self k ps parts = Inr out \<Longrightarrow> i < length ps
   \<Longrightarrow> \<exists>x. page_part self (k + i) (ps ! i) = Inr x"
proof (induction ps arbitrary: k parts i)
  case Nil
  then show ?case by simp
next
  case (Cons p ps)
  from Cons.prems(1) obtain x where x: "page_part self k p = Inr x"
    by (cases "page_part self k p") auto
  show ?case
  proof (cases i)
    case 0
    with x show ?thesis by simp
  next
    case (Suc j)
    from Cons.prems(1) x obtain parts' where "page_loop self (k + 1) ps parts' = Inr out"
      by (cases x) auto
    from Cons.IH [OF this, of j] Cons.prems(2) Suc show ?thesis by simp
  qed
qed

lemma numbered_parts_bounds:
  "(n, part) \<in> set (numbered_parts self k ps) \<Longrightarrow> k < n \<and> n \<le> k + length ps"
proof (induction ps arbitrary: k)
  case Nil
  then show ?case by simp
next
  case (Cons p ps)
  then show ?case
    by (fastforce split: sum.splits option.splits)
qed

lemma numbered_parts_sorted: "sorted_wrt (<) (map fst (numbered_parts self k ps))"
proof (induction ps arbitrary: k)
  case Nil
  then show ?case by simp
next
  case (Cons p ps)
  have "\<forall>x \<in> set (numbered_parts self (k + 1) ps). k + 1 < fst x"
    using numbered_parts_bounds [of _ _ self "k + 1" ps] by fastforce
  with Cons.IH [of "k + 1"] show ?case
    by (auto split: sum.splits option.splits)
qed

lemma numbered_parts_nth:
  "i < length ps \<Longrightarrow> page_part self (k + i) (ps ! i) = Inr (Some part)
   \<Longrightarrow> (k + i + 1, part) \<in> set (numbered_parts self k ps)"
proof (induction ps arbitrary: k i)
  case Nil
  then show ?case by simp
next
  case (Cons p ps)
  show ?case
  proof (cases i)
    case 0
    with Cons.prems show ?thesis by simp
  next
    case (Suc j)
    with Cons.prems have "j < length ps" "page_part self (k + 1 + j) (ps ! j) = Inr (Some part)"
      by simp_all
    from Cons.IH [OF this] Suc show ?thesis
      by (auto split: sum.splits option.splits)
  qed
qed

lemma sublist_join: "s \<in> set parts \<Longrightarrow> sublist s (join sep parts)"
proof (induction sep parts rule: join.induct)
  case (1 sep)
  then show ?case by simp
next
  case (2 sep x)
  then show ?case by simp
next
  case (3 sep x y ys)
  show ?case
  proof (cases "s = x")
    case True
    then show ?thesis by (simp add: sublist_append_rightI)
  next
    case False
    with 3 have "sublist s (join sep (y # ys))" by simp
    then obtain ps ss where "join sep (y # ys) = ps @ s @ ss"
      by (auto simp: sublist_def)
    then have "join sep (x # y # ys) = (x @ sep @ ps) @ s @ ss" by simp
    then show ?thesis unfolding sublist_def by blast
  qed
qed

lemma process_pdf_pymupdf_success:
  assumes "fitz_open w = Inr doc" and "process_pdf_pymupdf self w = Inr r"
    and "success r = Some True"
  shows "\<exists>parts. page_loop self 0 (doc_pages doc) [] = Inr parts
           \<and> r_text r = Some (join (nl @ nl) parts)"
  using assms
  by (auto simp: process_pdf_pymupdf_def Let_def failure_def no_keys_def extracted_def
        split: sum.splits)


lemma numbered_parts_page_part:
  "(n, s) \<in> set (numbered_parts self k ps)
   \<Longrightarrow> page_part self (n - 1) (ps ! (n - 1 - k)) = Inr (Some s)"
proof (induction ps arbitrary: k)
  case Nil
  then show ?case by simp
next
  case (Cons p ps)
  let ?rest = "numbered_parts self (k + 1) ps"
  show ?case
  proof (cases "(n, s) \<in> set ?rest")
    case True
    from numbered_parts_bounds [OF True] have "k + 1 < n" by simp
    then have "(p # ps) ! (n - 1 - k) = ps ! (n - 1 - (k + 1))"
      by (simp add: nth_Cons')
    with Cons.IH [OF True] show ?thesis by simp
  next
    case False
    with Cons.prems have "page_part self k p = Inr (Some s)" and "n = k + 1"
      by (auto split: sum.splits option.splits)
    then show ?thesis by simp
  qed
qed

lemma numbered_parts_iff:
  "(n, s) \<in> set (numbered_parts self 0 ps) \<longleftrightarrow>
     1 \<le> n \<and> n \<le> length ps \<and> page_part self (n - 1) (ps ! (n - 1)) = Inr (Some s)"
proof
  assume m: "(n, s) \<in> set (numbered_parts self 0 ps)"
  from numbered_parts_bounds [OF m] numbered_parts_page_part [OF m]
  show "1 \<le> n \<and> n \<le> length ps \<and> page_part self (n - 1) (ps ! (n - 1)) = Inr (Some s)"
    by simp
next
  assume h: "1 \<le> n \<and> n \<le> length ps \<and> page_part self (n - 1) (ps ! (n - 1)) = Inr (Some s)"
  then have "n - 1 < length ps" and "page_part self (0 + (n - 1)) (ps ! (n - 1)) = Inr (Some s)"
    by auto
  from numbered_parts_nth [OF this] h show "(n, s) \<in> set (numbered_parts self 0 ps)"
    by simp
qed

lemma page_part_Some_iff:
  assumes "page_part self k p = Inr x"
  shows "x = Some s \<longleftrightarrow>
           (\<exists>t. get_text p = Inr t
              \<and> (if strip t \<noteq> []
                  then s = lit ''--- Page '' @ str_nat (k + 1) @ lit '' ---'' @ nl @ t
                  else tesseract_available self
                       \<and> (\<exists>ocr_text. ocr_image (page_tesseract p) = Inr ocr_text
                             \<and> strip ocr_text \<noteq> []
                             \<and> s = lit ''--- Page '' @ str_nat (k + 1) @ lit '' (OCR) ---''
                                   @ nl @ ocr_text)))"
  using assms
  by (auto simp: page_part_def page_marker_def ocr_marker_def split: sum.splits if_splits)


text \<open>
  C7, as amended. When a PDF is processed with success, the text is a list of sections
  joined by an empty line, in strictly ascending page number, and the sections are exactly
  these: a page \<open>N\<close> whose text layer \<open>t\<close> is not blank gives \<open>--- Page N ---\<close>, a
  newline and \<open>t\<close>; a page whose text layer is blank gives, when OCR is available and its
  result \<open>o\<close> for the page is not blank, \<open>--- Page N (OCR) ---\<close>, a newline and \<open>o\<close>;
  a page with a blank text layer and no OCR, or a blank result of OCR, gives no section.
  So if page 2 has a blank text layer, OCR is available and gives a non-blank text for it,
  the text contains \<open>--- Page 2 (OCR) ---\<close>.
\<close>

theorem pdf_sections_in_page_order:
  assumes "fitz_open w = Inr doc" and "process_pdf_pymupdf self w = Inr r"
    and "success r = Some True"
  shows "\<exists>secs.
           r_text r = Some (join (nl @ nl) (map snd secs))
           \<and> sorted_wrt (<) (map fst secs)
           \<and> (\<forall>n s. (n, s) \<in> set secs \<longleftrightarrow>
                 1 \<le> n \<and> n \<le> length (doc_pages doc)
                 \<and> (\<exists>t. get_text (doc_pages doc ! (n - 1)) = Inr t
                       \<and> (if strip t \<noteq> []
                           then s = lit ''--- Page '' @ str_nat n @ lit '' ---'' @ nl @ t
                           else tesseract_available self
                                \<and> (\<exists>ocr_text.
                                      ocr_image (page_tesseract (doc_pages doc ! (n - 1)))
                                        = Inr ocr_text
                                      \<and> strip ocr_text \<noteq> []
                                      \<and> s = lit ''--- Page '' @ str_nat n @ lit '' (OCR) ---''
                                            @ nl @ ocr_text))))
           \<and> (tesseract_available self \<and> 2 \<le> length (doc_pages doc)
                \<and> get_text (doc_pages doc ! 1) = Inr t2 \<and> strip t2 = []
                \<and> ocr_image (page_tesseract (doc_pages doc ! 1)) = Inr ocr2
                \<and> strip ocr2 \<noteq> [] \<longrightarrow>
               sublist (lit ''--- Page 2 (OCR) ---'') (join (nl @ nl) (map snd secs)))"
proof -
  let ?ps = "doc_pages doc"
  let ?secs = "numbered_parts self 0 ?ps"
  from process_pdf_pymupdf_success [OF assms] obtain parts
    where loop: "page_loop self 0 ?ps [] = Inr parts"
      and rt: "r_text r = Some (join (nl @ nl) parts)"
    by blast
  from page_loop_parts [OF loop] rt
  have a: "r_text r = Some (join (nl @ nl) (map snd ?secs))"
    by simp
  have b: "sorted_wrt (<) (map fst ?secs)"
    by (rule numbered_parts_sorted)
  have c: "(n, s) \<in> set ?secs \<longleftrightarrow>
                 1 \<le> n \<and> n \<le> length ?ps
                 \<and> (\<exists>t. get_text (?ps ! (n - 1)) = Inr t
                       \<and> (if strip t \<noteq> []
                           then s = lit ''--- Page '' @ str_nat n @ lit '' ---'' @ nl @ t
                           else tesseract_available self
                                \<and> (\<exists>ocr_text.
                                      ocr_image (page_tesseract (?ps ! (n - 1))) = Inr ocr_text
                                      \<and> strip ocr_text \<noteq> []
                                      \<and> s = lit ''--- Page '' @ str_nat n @ lit '' (OCR) ---''
                                            @ nl @ ocr_text)))" for n s
  proof (cases "1 \<le> n \<and> n \<le> length ?ps")
    case False
    then show ?thesis by (simp only: numbered_parts_iff) blast
  next
    case True
    then have i: "n - 1 < length ?ps" and n: "n - 1 + 1 = n" by auto
    from page_loop_all_pages [OF loop i] obtain x
      where x: "page_part self (n - 1) (?ps ! (n - 1)) = Inr x" by auto
    from page_part_Some_iff [OF x, of s] x True show ?thesis
      by (simp only: numbered_parts_iff n) auto
  qed
  have d: "sublist (lit ''--- Page 2 (OCR) ---'') (join (nl @ nl) (map snd ?secs))"
    if h: "tesseract_available self \<and> 2 \<le> length ?ps
                \<and> get_text (?ps ! 1) = Inr t2 \<and> strip t2 = []
                \<and> ocr_image (page_tesseract (?ps ! 1)) = Inr ocr2
                \<and> strip ocr2 \<noteq> []"
  proof -
    from h have "(2, lit ''--- Page '' @ str_nat 2 @ lit '' (OCR) ---'' @ nl @ ocr2) \<in> set ?secs"
      by (subst c) auto
    then have "lit ''--- Page '' @ str_nat 2 @ lit '' (OCR) ---'' @ nl @ ocr2
                 \<in> set (map snd ?secs)"
      by force
    then have "sublist (lit ''--- Page '' @ str_nat 2 @ lit '' (OCR) ---'' @ nl @ ocr2)
                 (join (nl @ nl) (map snd ?secs))"
      by (rule sublist_join)
    moreover have "lit ''--- Page '' @ str_nat 2 @ lit '' (OCR) ---'' @ nl @ ocr2
                     = lit ''--- Page 2 (OCR) ---'' @ nl @ ocr2"
      by (simp add: str_nat.simps lit_def)
    moreover have "sublist (lit ''--- Page 2 (OCR) ---'') (lit ''--- Page 2 (OCR) ---'' @ nl @ ocr2)"
      by simp
    ultimately show ?thesis
      by (simp only: sublist_order.order_trans [rotated])
  qed
  show ?thesis
  proof (intro exI [of _ ?secs] conjI allI impI)
    show "r_text r = Some (join (nl @ nl) (map snd ?secs))" by (rule a)
    show "sorted_wrt (<) (map fst ?secs)" by (rule b)
    show "(n, s) \<in> set ?secs \<longleftrightarrow>
                 1 \<le> n \<and> n \<le> length ?ps
                 \<and> (\<exists>t. get_text (?ps ! (n - 1)) = Inr t
                       \<and> (if strip t \<noteq> []
                           then s = lit ''--- Page '' @ str_nat n @ lit '' ---'' @ nl @ t
                           else tesseract_available self
                                \<and> (\<exists>ocr_text.
                                      ocr_image (page_tesseract (?ps ! (n - 1))) = Inr ocr_text
                                      \<and> strip ocr_text \<noteq> []
                                      \<and> s = lit ''--- Page '' @ str_nat n @ lit '' (OCR) ---''
                                            @ nl @ ocr_text)))" for n s
      by (rule c)
    assume "tesseract_available self \<and> 2 \<le> length ?ps
                \<and> get_text (?ps ! 1) = Inr t2 \<and> strip t2 = []
                \<and> ocr_image (page_tesseract (?ps ! 1)) = Inr ocr2
                \<and> strip ocr2 \<noteq> []"
    then show "sublist (lit ''--- Page 2 (OCR) ---'') (join (nl @ nl) (map snd ?secs))"
      by (rule d)
  qed
qed

lemma strip_lits [simp]:
  "strip (lit ''Intro'') = lit ''Intro''" "strip (lit ''Scan'') = lit ''Scan''"
  "strip (lit ''End'') = lit ''End''" "strip [] = []"
  by (simp_all add: strip_def lit_def isspace_def)

lemma lit_not_Nil [simp]: "lit s = [] \<longleftrightarrow> s = []"
  by (simp add: lit_def)

lemma page_part_text [simp]:
  "strip t \<noteq> [] \<Longrightarrow> page_part self k (text_page t) = Inr (Some (page_marker k @ nl @ t))"
  by (simp add: page_part_def text_page_def)

lemma page_part_scanned [simp]:
  "strip (strip out) \<noteq> [] \<Longrightarrow>
   page_part full_pipeline k (scanned_page out) = Inr (Some (ocr_marker k @ nl @ strip out))"
  by (simp add: page_part_def scanned_page_def full_pipeline_def ocr_image_def run_checked_def
        strip_def)

lemma page_part_blank_scan [simp]:
  "page_part full_pipeline k (scanned_page []) = Inr None"
  by (simp add: page_part_def scanned_page_def full_pipeline_def ocr_image_def run_checked_def
        strip_def)

lemma markers:
  "page_marker 0 = lit ''--- Page 1 ---''"
  "page_marker (Suc (Suc 0)) = lit ''--- Page 3 ---''"
  "ocr_marker (Suc 0) = lit ''--- Page 2 (OCR) ---''"
  by (simp_all add: page_marker_def ocr_marker_def str_nat.simps lit_def)

lemma three: "Suc (Suc (Suc 0)) = 3"
  by simp

lemma process_three_pages:
  "process_pdf_pymupdf full_pipeline (pdf_file three_pages) =
     Inr ((extracted
             (lit ''--- Page 1 ---'' @ nl @ lit ''Intro'' @ nl @ nl
              @ lit ''--- Page 2 (OCR) ---'' @ nl @ lit ''Scan'' @ nl @ nl
              @ lit ''--- Page 3 ---'' @ nl @ lit ''End'')
             (9 / 10) (lit ''pymupdf''))\<lparr>pages := Some 3\<rparr>)"
  by (simp add: process_pdf_pymupdf_def pdf_file_def three_pages_def markers three)

lemma process_blank_scan:
  "process_pdf_pymupdf full_pipeline (pdf_file blank_scan) =
     Inr ((extracted (lit ''--- Page 1 ---'' @ nl @ lit ''Intro'') (9 / 10) (lit ''pymupdf''))
            \<lparr>pages := Some 2\<rparr>)"
  by (simp add: process_pdf_pymupdf_def pdf_file_def blank_scan_def markers)

text \<open>
  The claim as written fails at a PDF of two pages whose second page is a scan on which
  OCR finds nothing: the text has no marker for page 2.
\<close>

theorem pdf_blank_ocr_counterexample:
  "tesseract_available full_pipeline \<and> pymupdf_available full_pipeline
   \<and> get_text (blank_scan ! 1) = Inr []
   \<and> process_pdf_pymupdf full_pipeline (pdf_file blank_scan) =
     Inr ((extracted (lit ''--- Page 1 ---'' @ nl @ lit ''Intro'') (9 / 10) (lit ''pymupdf''))
            \<lparr>pages := Some 2\<rparr>)
   \<and> \<not> sublist (lit ''--- Page 2 (OCR) ---'') (lit ''--- Page 1 ---'' @ nl @ lit ''Intro'')"
proof -
  have "\<not> sublist (lit ''--- Page 2 (OCR) ---'') (lit ''--- Page 1 ---'' @ nl @ lit ''Intro'')"
  proof
    assume "sublist (lit ''--- Page 2 (OCR) ---'') (lit ''--- Page 1 ---'' @ nl @ lit ''Intro'')"
    then have "set (lit ''--- Page 2 (OCR) ---'') \<subseteq> set (lit ''--- Page 1 ---'' @ nl @ lit ''Intro'')"
      by (rule set_mono_sublist)
    then show False by (simp add: lit_def nl_def)
  qed
  then show ?thesis
    by (simp add: process_blank_scan) (simp add: full_pipeline_def blank_scan_def scanned_page_def)
qed


theorem pdf_sections_in_page_order_witness:
  "fitz_open (pdf_file three_pages) = Inr \<lparr>doc_pages = three_pages, close = Inr ()\<rparr>
   \<and> process_pdf_pymupdf full_pipeline (pdf_file three_pages) =
       Inr ((extracted
               (lit ''--- Page 1 ---'' @ nl @ lit ''Intro'' @ nl @ nl
                @ lit ''--- Page 2 (OCR) ---'' @ nl @ lit ''Scan'' @ nl @ nl
                @ lit ''--- Page 3 ---'' @ nl @ lit ''End'')
               (9 / 10) (lit ''pymupdf''))\<lparr>pages := Some 3\<rparr>)
   \<and> tesseract_available full_pipeline \<and> 2 \<le> length three_pages
   \<and> get_text (three_pages ! 1) = Inr []
   \<and> ocr_image (page_tesseract (three_pages ! 1)) = Inr (lit ''Scan'')
   \<and> strip (lit ''Scan'') \<noteq> []
   \<and> sublist (lit ''--- Page 2 (OCR) ---'')
        (lit ''--- Page 1 ---'' @ nl @ lit ''Intro'' @ nl @ nl
         @ lit ''--- Page 2 (OCR) ---'' @ nl @ lit ''Scan'' @ nl @ nl
         @ lit ''--- Page 3 ---'' @ nl @ lit ''End'')"
proof -
  let ?doc = "\<lparr>doc_pages = three_pages, close = Inr ()\<rparr>"
  let ?t = "lit ''--- Page 1 ---'' @ nl @ lit ''Intro'' @ nl @ nl
            @ lit ''--- Page 2 (OCR) ---'' @ nl @ lit ''Scan'' @ nl @ nl
            @ lit ''--- Page 3 ---'' @ nl @ lit ''End''"
  let ?r = "(extracted ?t (9 / 10) (lit ''pymupdf''))\<lparr>pages := Some 3\<rparr>"
  have h1: "fitz_open (pdf_file three_pages) = Inr ?doc"
    by (simp add: pdf_file_def)
  have h2: "process_pdf_pymupdf full_pipeline (pdf_file three_pages) = Inr ?r"
    by (rule process_three_pages)
  have h3: "success ?r = Some True"
    by (simp add: extracted_def)
  have h4: "tesseract_available full_pipeline \<and> 2 \<le> length (doc_pages ?doc)
              \<and> get_text (doc_pages ?doc ! 1) = Inr [] \<and> strip [] = []
              \<and> ocr_image (page_tesseract (doc_pages ?doc ! 1)) = Inr (lit ''Scan'')
              \<and> strip (lit ''Scan'') \<noteq> []"
    by (simp add: full_pipeline_def three_pages_def scanned_page_def ocr_image_def
          run_checked_def)
  have rt: "r_text ?r = Some ?t"
    by (simp add: extracted_def)
  from pdf_sections_in_page_order [OF h1 h2 h3, where ?t2.0 = "[]" and ?ocr2.0 = "lit ''Scan''"]
  have c: "sublist (lit ''--- Page 2 (OCR) ---'') ?t"
  proof (elim exE conjE)
    fix secs
    assume a: "r_text ?r = Some (join (nl @ nl) (map snd secs))"
      and d: "tesseract_available full_pipeline \<and> 2 \<le> length (doc_pages ?doc)
              \<and> get_text (doc_pages ?doc ! 1) = Inr [] \<and> strip [] = []
              \<and> ocr_image (page_tesseract (doc_pages ?doc ! 1)) = Inr (lit ''Scan'')
              \<and> strip (lit ''Scan'') \<noteq> []
            \<longrightarrow> sublist (lit ''--- Page 2 (OCR) ---'') (join (nl @ nl) (map snd secs))"
    from d h4 have "sublist (lit ''--- Page 2 (OCR) ---'') (join (nl @ nl) (map snd secs))"
      by (rule mp)
    moreover from a rt have "join (nl @ nl) (map snd secs) = ?t"
      by simp
    ultimately show ?thesis by simp
  qed
  from h1 h2 h4 c show ?thesis by simp
qed

end
